theory Spec2Isabelle
  imports Complex_Main
begin

section \<open>Numbers\<close>

text \<open>
  Every quantity of the program is a JavaScript \<^verbatim>\<open>number\<close>. The development reads the
  arithmetic of the source exactly, over \<^typ>\<open>real\<close>: \<^verbatim>\<open>+\<close>, \<^verbatim>\<open>-\<close>, \<^verbatim>\<open>*\<close>, \<^verbatim>\<open>/\<close>,
  \<^verbatim>\<open>Math.min\<close>, \<^verbatim>\<open>Math.max\<close>, \<^verbatim>\<open>Math.abs\<close> and the comparisons are the operations
  of the reals, so the rounding of IEEE doubles, \<^verbatim>\<open>NaN\<close> and the infinities are not
  represented. Where the source divides, the divisor is named in the text of the definition;
  in HOL \<open>a / 0 = 0\<close>, whereas JavaScript yields an infinity or \<^verbatim>\<open>NaN\<close>, so a statement
  about the value of a quotient carries the hypothesis that its divisor is positive.
  Pixel sizes of decoded images (\<^verbatim>\<open>img.width\<close>, \<^verbatim>\<open>img.height\<close>) are naturals, and
  \<^verbatim>\<open>imagesPerPage\<close> is an integer.
\<close>

section \<open>AreaSelector.tsx: the rectangle editor\<close>

text \<open>\<^verbatim>\<open>interface AreaConfig { x; y; width; height }\<close>, all percentages of the frame.\<close>

record AreaConfig =
  area_x :: real
  area_y :: real
  area_width :: real
  area_height :: real

text \<open>The \<^verbatim>\<open>{ x, y }\<close> objects of \<^verbatim>\<open>getRelativePosition\<close> and \<^verbatim>\<open>dragStart\<close>.\<close>

record Point =
  pos_x :: real
  pos_y :: real

text \<open>
  \<^verbatim>\<open>type DragMode = 'none' | 'draw' | 'move' | 'resize-tl' | 'resize-tr' | 'resize-bl' | 'resize-br'\<close>
\<close>

datatype DragMode =
  mode_none | mode_draw | mode_move | resize_tl | resize_tr | resize_bl | resize_br

text \<open>\<^verbatim>\<open>dragMode.startsWith('resize-')\<close>\<close>

fun startsWith_resize :: "DragMode \<Rightarrow> bool" where
  "startsWith_resize resize_tl = True"
| "startsWith_resize resize_tr = True"
| "startsWith_resize resize_bl = True"
| "startsWith_resize resize_br = True"
| "startsWith_resize _ = False"

text \<open>The result of \<^verbatim>\<open>getBoundingClientRect()\<close> and the fields read of a mouse event.\<close>

record DOMRect =
  rect_left :: real
  rect_top :: real
  rect_width :: real
  rect_height :: real

record MouseEvent =
  clientX :: real
  clientY :: real

text \<open>
  The component: its four \<^verbatim>\<open>useState\<close> cells, the \<^verbatim>\<open>areaConfig\<close> prop, and the calls made
  to the \<^verbatim>\<open>onAreaChange\<close> prop, oldest first. The one caller in the repository
  (\<^verbatim>\<open>SettingsModal\<close>) passes \<^verbatim>\<open>(area) => { setAreaConfig(area); ... }\<close> and hands its
  \<^verbatim>\<open>areaConfig\<close> back as the prop, so a call replaces the prop.
\<close>

record selector =
  dragMode :: DragMode
  dragStart :: "Point option"
  tempArea :: "AreaConfig option"
  originalArea :: "AreaConfig option"
  areaConfig :: "AreaConfig option"
  areaChanged :: "AreaConfig option list"

definition onAreaChange :: "AreaConfig option \<Rightarrow> selector \<Rightarrow> selector" where
  "onAreaChange area st = st\<lparr>areaConfig := area, areaChanged := areaChanged st @ [area]\<rparr>"

text \<open>
  \<^verbatim>\<open>getRelativePosition\<close> (lines 26-35); \<open>None\<close> is \<^verbatim>\<open>!containerRef.current\<close>.
  The divisors are \<^verbatim>\<open>rect.width\<close> and \<^verbatim>\<open>rect.height\<close>.
\<close>

definition getRelativePosition :: "DOMRect option \<Rightarrow> MouseEvent \<Rightarrow> Point" where
  "getRelativePosition container e =
     (case container of
        None \<Rightarrow> \<lparr>pos_x = 0, pos_y = 0\<rparr>
      | Some rect \<Rightarrow>
          (let x = ((clientX e - rect_left rect) / rect_width rect) * 100;
               y = ((clientY e - rect_top rect) / rect_height rect) * 100
           in \<lparr>pos_x = max 0 (min 100 x), pos_y = max 0 (min 100 y)\<rparr>))"

text \<open>\<^verbatim>\<open>getCornerAtPosition\<close> (lines 37-60): the first corner within \<^verbatim>\<open>handleSize\<close>, in the
  order of the array, then the interior, then \<^verbatim>\<open>'draw'\<close>.\<close>

definition handleSize :: real where
  "handleSize = 3"

definition corners :: "AreaConfig \<Rightarrow> (DragMode \<times> real \<times> real) list" where
  "corners area =
     [(resize_tl, area_x area, area_y area),
      (resize_tr, area_x area + area_width area, area_y area),
      (resize_bl, area_x area, area_y area + area_height area),
      (resize_br, area_x area + area_width area, area_y area + area_height area)]"

definition getCornerAtPosition :: "Point \<Rightarrow> AreaConfig \<Rightarrow> DragMode" where
  "getCornerAtPosition pos area =
     (case find (\<lambda>(m, cx, cy). \<bar>pos_x pos - cx\<bar> < handleSize \<and> \<bar>pos_y pos - cy\<bar> < handleSize)
             (corners area) of
        Some (m, cx, cy) \<Rightarrow> m
      | None \<Rightarrow>
          if pos_x pos \<ge> area_x area \<and> pos_x pos \<le> area_x area + area_width area \<and>
             pos_y pos \<ge> area_y area \<and> pos_y pos \<le> area_y area + area_height area
          then mode_move
          else mode_draw)"

text \<open>\<^verbatim>\<open>handleMouseDown\<close> (lines 62-80), from \<^verbatim>\<open>const pos = getRelativePosition(e)\<close> on.\<close>

definition handleMouseDown_at :: "Point \<Rightarrow> selector \<Rightarrow> selector" where
  "handleMouseDown_at pos st =
     (case areaConfig st of
        Some area \<Rightarrow>
          (let m = getCornerAtPosition pos area;
               st1 = st\<lparr>dragMode := m, dragStart := Some pos, originalArea := Some area\<rparr>
           in if m = mode_draw
              then st1\<lparr>tempArea := Some \<lparr>area_x = pos_x pos, area_y = pos_y pos,
                                          area_width = 0, area_height = 0\<rparr>\<rparr>
              else st1)
      | None \<Rightarrow>
          st\<lparr>dragMode := mode_draw, dragStart := Some pos,
             tempArea := Some \<lparr>area_x = pos_x pos, area_y = pos_y pos,
                               area_width = 0, area_height = 0\<rparr>\<rparr>)"

definition handleMouseDown :: "DOMRect option \<Rightarrow> MouseEvent \<Rightarrow> selector \<Rightarrow> selector" where
  "handleMouseDown container e st = handleMouseDown_at (getRelativePosition container e) st"

text \<open>The \<^verbatim>\<open>'draw'\<close> branch of \<^verbatim>\<open>handleMouseMove\<close> (lines 87-94).\<close>

definition drawArea :: "Point \<Rightarrow> Point \<Rightarrow> AreaConfig" where
  "drawArea start pos =
     \<lparr>area_x = min (pos_x start) (pos_x pos),
      area_y = min (pos_y start) (pos_y pos),
      area_width = \<bar>pos_x pos - pos_x start\<bar>,
      area_height = \<bar>pos_y pos - pos_y start\<bar>\<rparr>"

text \<open>The \<^verbatim>\<open>'move'\<close> branch (lines 95-108).\<close>

definition moveArea :: "AreaConfig \<Rightarrow> Point \<Rightarrow> Point \<Rightarrow> AreaConfig" where
  "moveArea orig start pos =
     (let dx = pos_x pos - pos_x start;
          dy = pos_y pos - pos_y start;
          newX = area_x orig + dx;
          newY = area_y orig + dy;
          newX = max 0 (min (100 - area_width orig) newX);
          newY = max 0 (min (100 - area_height orig) newY)
      in \<lparr>area_x = newX, area_y = newY,
          area_width = area_width orig, area_height = area_height orig\<rparr>)"

text \<open>
  The \<^verbatim>\<open>'resize-'\<close> branch (lines 109-142): the four corner cases in the order of the
  \<^verbatim>\<open>if\<close> chain, then the floor of 2 on the size and the clamp of the position.
\<close>

definition resizeArea :: "DragMode \<Rightarrow> AreaConfig \<Rightarrow> Point \<Rightarrow> Point \<Rightarrow> AreaConfig" where
  "resizeArea m orig start pos =
     (let dx = pos_x pos - pos_x start;
          dy = pos_y pos - pos_y start;
          (newX, newY, newW, newH) =
            (if m = resize_tl then
               (area_x orig + dx, area_y orig + dy, area_width orig - dx, area_height orig - dy)
             else if m = resize_tr then
               (area_x orig, area_y orig + dy, area_width orig + dx, area_height orig - dy)
             else if m = resize_bl then
               (area_x orig + dx, area_y orig, area_width orig - dx, area_height orig + dy)
             else if m = resize_br then
               (area_x orig, area_y orig, area_width orig + dx, area_height orig + dy)
             else
               (area_x orig, area_y orig, area_width orig, area_height orig));
          newW = (if newW < 2 then 2 else newW);
          newH = (if newH < 2 then 2 else newH);
          newX = max 0 (min (100 - newW) newX);
          newY = max 0 (min (100 - newH) newY)
      in \<lparr>area_x = newX, area_y = newY, area_width = newW, area_height = newH\<rparr>)"

text \<open>\<^verbatim>\<open>handleMouseMove\<close> (lines 82-143), from \<^verbatim>\<open>const pos = getRelativePosition(e)\<close> on.\<close>

definition handleMouseMove_at :: "Point \<Rightarrow> selector \<Rightarrow> selector" where
  "handleMouseMove_at pos st =
     (case dragStart st of
        None \<Rightarrow> st
      | Some start \<Rightarrow>
          if dragMode st = mode_none then st
          else if dragMode st = mode_draw then
            st\<lparr>tempArea := Some (drawArea start pos)\<rparr>
          else if dragMode st = mode_move \<and> originalArea st \<noteq> None then
            st\<lparr>tempArea := Some (moveArea (the (originalArea st)) start pos)\<rparr>
          else if startsWith_resize (dragMode st) \<and> originalArea st \<noteq> None then
            st\<lparr>tempArea := Some (resizeArea (dragMode st) (the (originalArea st)) start pos)\<rparr>
          else st)"

definition handleMouseMove :: "DOMRect option \<Rightarrow> MouseEvent \<Rightarrow> selector \<Rightarrow> selector" where
  "handleMouseMove container e st =
     (if dragMode st = mode_none \<or> dragStart st = None then st
      else handleMouseMove_at (getRelativePosition container e) st)"

text \<open>\<^verbatim>\<open>handleMouseUp\<close> (lines 145-155); \<open>clearSession\<close> is its four closing setters.\<close>

definition clearSession :: "selector \<Rightarrow> selector" where
  "clearSession st =
     st\<lparr>dragMode := mode_none, dragStart := None, tempArea := None, originalArea := None\<rparr>"

definition handleMouseUp :: "selector \<Rightarrow> selector" where
  "handleMouseUp st =
     clearSession
       (case tempArea st of
          Some t \<Rightarrow>
            if dragMode st \<noteq> mode_none \<and> area_width t > 1 \<and> area_height t > 1
            then onAreaChange (Some t) st
            else st
        | None \<Rightarrow> st)"

text \<open>
  One pointer gesture: the mouse-down on the container, the mouse-moves the window delivers
  while the listeners are attached (\<^verbatim>\<open>dragMode !== 'none'\<close>, lines 157-166), and the mouse-up.
\<close>

definition moves :: "DOMRect option \<Rightarrow> MouseEvent list \<Rightarrow> selector \<Rightarrow> selector" where
  "moves container es st = foldl (\<lambda>s e. handleMouseMove container e s) st es"

definition gesture :: "DOMRect option \<Rightarrow> MouseEvent \<Rightarrow> MouseEvent list \<Rightarrow> selector \<Rightarrow> selector" where
  "gesture container down es st =
     handleMouseUp (moves container es (handleMouseDown container down st))"

text \<open>The Rectangle invariants of the data model.\<close>

definition in_bounds :: "AreaConfig \<Rightarrow> bool" where
  "in_bounds r \<longleftrightarrow>
     0 \<le> area_x r \<and> 0 \<le> area_y r \<and> area_x r + area_width r \<le> 100 \<and>
     area_y r + area_height r \<le> 100 \<and> 0 \<le> area_width r \<and> 0 \<le> area_height r"

section \<open>ImageMerger: the aspect-fit compositor\<close>

text \<open>A decoded \<^verbatim>\<open>HTMLImageElement\<close>: its source and its size in pixels.\<close>

record HTMLImage =
  img_src :: string
  img_width :: nat
  img_height :: nat

text \<open>\<^verbatim>\<open>interface QRISImage { id; file; preview }\<close>; the \<^verbatim>\<open>file\<close> is not read by the compositor.\<close>

record QRISImage =
  qris_id :: string
  preview :: string

text \<open>The four variables \<^verbatim>\<open>drawX, drawY, drawWidth, drawHeight\<close> passed to \<^verbatim>\<open>ctx.drawImage\<close>.\<close>

record drawn =
  drawX :: real
  drawY :: real
  drawWidth :: real
  drawHeight :: real

text \<open>
  What \<^verbatim>\<open>canvas.toDataURL\<close> encodes after the two \<^verbatim>\<open>drawImage\<close> calls: a canvas of the
  frame's size, the frame at the origin, and one code image at its rectangle.
\<close>

record merged =
  canvas_width :: nat
  canvas_height :: nat
  frame :: HTMLImage
  qris :: HTMLImage
  qris_at :: drawn

text \<open>\<^verbatim>\<open>targetArea\<close> (lines 36-41): the percentages scaled to the pixels of the frame;
  the object has the fields of an \<^verbatim>\<open>AreaConfig\<close>, now in pixels.\<close>

definition targetArea :: "AreaConfig \<Rightarrow> HTMLImage \<Rightarrow> AreaConfig" where
  "targetArea cfg frameImg =
     \<lparr>area_x = (area_x cfg / 100) * real (img_width frameImg),
      area_y = (area_y cfg / 100) * real (img_height frameImg),
      area_width = (area_width cfg / 100) * real (img_width frameImg),
      area_height = (area_height cfg / 100) * real (img_height frameImg)\<rparr>"

text \<open>Lines 55-72. The divisors are \<^verbatim>\<open>qrisImg.height\<close>, \<^verbatim>\<open>targetArea.height\<close> and
  \<^verbatim>\<open>qrisAspect\<close>.\<close>

definition drawQris :: "AreaConfig \<Rightarrow> HTMLImage \<Rightarrow> drawn" where
  "drawQris target qrisImg =
     (let qrisAspect = real (img_width qrisImg) / real (img_height qrisImg);
          targetAspect = area_width target / area_height target
      in if qrisAspect > targetAspect then
           (let dW = area_width target;
                dH = dW / qrisAspect
            in \<lparr>drawX = area_x target,
                drawY = area_y target + (area_height target - dH) / 2,
                drawWidth = dW, drawHeight = dH\<rparr>)
         else
           (let dH = area_height target;
                dW = dH * qrisAspect
            in \<lparr>drawX = area_x target + (area_width target - dW) / 2,
                drawY = area_y target,
                drawWidth = dW, drawHeight = dH\<rparr>))"

text \<open>
  The \<^verbatim>\<open>for\<close> loop of \<^verbatim>\<open>mergeImages\<close> (lines 43-81) with its \<^verbatim>\<open>try\<close>/\<^verbatim>\<open>catch\<close>:
  \<open>loadImage\<close> gives \<open>None\<close> where the promise of \<^verbatim>\<open>loadImage\<close> rejects, which is the one
  way into the \<^verbatim>\<open>catch\<close> that is modelled; \<open>mergedResults\<close> is the array being pushed to.
\<close>

fun mergeLoop ::
  "(string \<Rightarrow> HTMLImage option) \<Rightarrow> HTMLImage \<Rightarrow> AreaConfig \<Rightarrow> QRISImage list \<Rightarrow>
   merged list \<Rightarrow> merged list" where
  "mergeLoop loadImage frameImg target [] mergedResults = mergedResults"
| "mergeLoop loadImage frameImg target (qrisImage # rest) mergedResults =
     (case loadImage (preview qrisImage) of
        Some qrisImg \<Rightarrow>
          mergeLoop loadImage frameImg target rest
            (mergedResults @
              [\<lparr>canvas_width = img_width frameImg, canvas_height = img_height frameImg,
                frame = frameImg, qris = qrisImg, qris_at = drawQris target qrisImg\<rparr>])
      | None \<Rightarrow> mergeLoop loadImage frameImg target rest mergedResults)"

text \<open>
  \<^verbatim>\<open>mergeImages\<close> (lines 24-84). The result is the argument of \<^verbatim>\<open>onMergedImagesReady\<close>;
  \<open>None\<close> where the callback is not reached: no canvas or no 2d context (\<open>canvas\<close> false),
  or the frame itself does not load (that \<^verbatim>\<open>await\<close> is outside the \<^verbatim>\<open>try\<close>).
\<close>

definition mergeImages ::
  "(string \<Rightarrow> HTMLImage option) \<Rightarrow> bool \<Rightarrow> string \<Rightarrow> QRISImage list \<Rightarrow> AreaConfig \<Rightarrow>
   merged list option" where
  "mergeImages loadImage canvas frameImage qrisImages cfg =
     (if \<not> canvas then None
      else case loadImage frameImage of
             None \<Rightarrow> None
           | Some frameImg \<Rightarrow>
               Some (mergeLoop loadImage frameImg (targetArea cfg frameImg) qrisImages []))"

text \<open>
  A decoder for the examples: \<open>frame\<close> decodes to a 400 by 400 image, \<open>broken\<close> does not
  decode, and every other source decodes to a 200 by 100 image.
\<close>

definition decoder :: "string \<Rightarrow> HTMLImage option" where
  "decoder s =
     (if s = ''broken'' then None
      else if s = ''frame'' then Some \<lparr>img_src = s, img_width = 400, img_height = 400\<rparr>
      else Some \<lparr>img_src = s, img_width = 200, img_height = 100\<rparr>)"

section \<open>PrintLayout.tsx: pages, grid and PDF export\<close>

text \<open>
  \<^verbatim>\<open>Array.prototype.slice(start, end)\<close> on integer arguments: a negative index counts from
  the end, both are cut to the array, and an empty range gives the empty array.
\<close>

definition slice :: "'a list \<Rightarrow> int \<Rightarrow> int \<Rightarrow> 'a list" where
  "slice xs start stop =
     (let len = int (length xs);
          k = (if start < 0 then max (len + start) 0 else min start len);
          final = (if stop < 0 then max (len + stop) 0 else min stop len)
      in take (nat (final - k)) (drop (nat k) xs))"

text \<open>
  The loop that fills \<^verbatim>\<open>pages\<close> (lines 14-17), with \<open>i\<close> and the array built so far as
  arguments. The source loops for as long as \<^verbatim>\<open>i < mergedImages.length\<close>, which is forever
  when \<^verbatim>\<open>imagesPerPage\<close> is not positive and there is an image: the function is partial,
  and \<open>None\<close> stands for a loop that does not end.
\<close>

partial_function (option) pagesLoop ::
  "'a list \<Rightarrow> int \<Rightarrow> int \<Rightarrow> 'a list list \<Rightarrow> 'a list list option" where
  "pagesLoop mergedImages imagesPerPage i pages =
     (if i < int (length mergedImages)
      then pagesLoop mergedImages imagesPerPage (i + imagesPerPage)
             (pages @ [slice mergedImages i (i + imagesPerPage)])
      else Some pages)"

declare pagesLoop.simps [code]

definition pages :: "'a list \<Rightarrow> int \<Rightarrow> 'a list list option" where
  "pages mergedImages imagesPerPage = pagesLoop mergedImages imagesPerPage 0 []"

text \<open>\<^verbatim>\<open>getGridClass\<close> (lines 19-32), the column class of the grid on screen.\<close>

definition getGridClass :: "int \<Rightarrow> string" where
  "getGridClass imagesPerPage =
     (if imagesPerPage = 1 then ''grid-cols-1''
      else if imagesPerPage = 2 then ''grid-cols-2''
      else if imagesPerPage = 4 then ''grid-cols-2''
      else if imagesPerPage = 6 then ''grid-cols-3''
      else ''grid-cols-2'')"

text \<open>\<^verbatim>\<open>getOrientation\<close> (lines 35-37).\<close>

datatype Orientation = portrait | landscape

definition getOrientation :: "int \<Rightarrow> Orientation" where
  "getOrientation imagesPerPage = (if imagesPerPage \<ge> 2 then landscape else portrait)"

text \<open>
  The constants each export function computes before its loop: page size in millimetres,
  padding, grid and cell size.
\<close>

record layout =
  pageWidth :: real
  pageHeight :: real
  padding :: real
  cols :: int
  rows :: int
  cellWidth :: real
  cellHeight :: real

text \<open>One \<^verbatim>\<open>pdf.addImage(src, 'PNG', x, y, drawWidth, drawHeight)\<close>.\<close>

record 'img addImage =
  pdf_image :: 'img
  at_x :: real
  at_y :: real
  at_width :: real
  at_height :: real

text \<open>The two file names: \<^verbatim>\<open>qris-merged-page-${pageIndex + 1}.pdf\<close> and
  \<^verbatim>\<open>qris-merged-all.pdf\<close>.\<close>

datatype pdf_name = qris_merged_page int | qris_merged_all

text \<open>
  The document handed to \<^verbatim>\<open>pdf.save\<close>: the orientation given to the constructor and to every
  \<^verbatim>\<open>addPage\<close>, the images added to each page in the order of the calls, and the file name.
\<close>

record 'img pdf =
  pdf_orientation :: Orientation
  pdf_pages :: "'img addImage list list"
  saved_as :: pdf_name

text \<open>The message of the \<^verbatim>\<open>catch\<close> of both export functions; nothing is saved then.\<close>

definition export_failed :: string where
  "export_failed = ''Gagal membuat PDF. Silakan coba lagi.''"

subsection \<open>\<^verbatim>\<open>downloadPageAsPDF\<close> (lines 49-102)\<close>

text \<open>Lines 52 and 60-70. The divisors are \<^verbatim>\<open>cols\<close> and \<^verbatim>\<open>rows\<close>.\<close>

definition downloadPageAsPDF_layout :: "int \<Rightarrow> layout" where
  "downloadPageAsPDF_layout imagesPerPage =
     (let orientation = getOrientation imagesPerPage;
          pageWidth = (if orientation = landscape then 297 else 210);
          pageHeight = (if orientation = landscape then 210 else 297);
          padding = 3;
          cols = (if imagesPerPage = 1 then 1 else if imagesPerPage = 2 then 2
                  else if imagesPerPage = 4 then 2 else 3);
          rows = \<lceil>real_of_int imagesPerPage / real_of_int cols\<rceil>;
          availableWidth = pageWidth - (padding * 2);
          availableHeight = pageHeight - (padding * 2);
          cellWidth = availableWidth / real_of_int cols;
          cellHeight = availableHeight / real_of_int rows
      in \<lparr>pageWidth = pageWidth, pageHeight = pageHeight, padding = padding,
          cols = cols, rows = rows, cellWidth = cellWidth, cellHeight = cellHeight\<rparr>)"

text \<open>
  The loop of lines 72-94 from index \<open>i\<close> on, over the images left; \<open>None\<close> where a
  \<^verbatim>\<open>loadImage\<close> rejects, which leaves the loop for the \<^verbatim>\<open>catch\<close>. The divisors are
  \<^verbatim>\<open>cols\<close>, \<^verbatim>\<open>img.height\<close>, \<^verbatim>\<open>cellHeight\<close> and \<^verbatim>\<open>imgAspect\<close>.
\<close>

fun downloadPageAsPDF_loop ::
  "('img \<Rightarrow> HTMLImage option) \<Rightarrow> layout \<Rightarrow> nat \<Rightarrow> 'img list \<Rightarrow> 'img addImage list option" where
  "downloadPageAsPDF_loop loadImage L i [] = Some []"
| "downloadPageAsPDF_loop loadImage L i (src # rest) =
     (case loadImage src of
        None \<Rightarrow> None
      | Some img \<Rightarrow>
          (let col = int i mod cols L;
               row = \<lfloor>real i / real_of_int (cols L)\<rfloor>;
               imgAspect = real (img_width img) / real (img_height img);
               cellAspect = cellWidth L / cellHeight L;
               drawWidth = (if imgAspect > cellAspect then cellWidth L * 0.99
                            else (cellHeight L * 0.99) * imgAspect);
               drawHeight = (if imgAspect > cellAspect then (cellWidth L * 0.99) / imgAspect
                             else cellHeight L * 0.99);
               x = padding L + real_of_int col * cellWidth L + (cellWidth L - drawWidth) / 2;
               y = padding L + real_of_int row * cellHeight L + (cellHeight L - drawHeight) / 2
           in case downloadPageAsPDF_loop loadImage L (Suc i) rest of
                None \<Rightarrow> None
              | Some added \<Rightarrow>
                  Some (\<lparr>pdf_image = src, at_x = x, at_y = y,
                          at_width = drawWidth, at_height = drawHeight\<rparr> # added)))"

definition downloadPageAsPDF ::
  "('img \<Rightarrow> HTMLImage option) \<Rightarrow> int \<Rightarrow> 'img list \<Rightarrow> int \<Rightarrow> string + 'img pdf" where
  "downloadPageAsPDF loadImage imagesPerPage pageImages pageIndex =
     (case downloadPageAsPDF_loop loadImage (downloadPageAsPDF_layout imagesPerPage) 0 pageImages of
        None \<Rightarrow> Inl export_failed
      | Some added \<Rightarrow>
          Inr \<lparr>pdf_orientation = getOrientation imagesPerPage, pdf_pages = [added],
               saved_as = qris_merged_page (pageIndex + 1)\<rparr>)"

subsection \<open>\<^verbatim>\<open>downloadAllAsPDF\<close> (lines 104-164)\<close>

text \<open>Lines 107 and 114-124.\<close>

definition downloadAllAsPDF_layout :: "int \<Rightarrow> layout" where
  "downloadAllAsPDF_layout imagesPerPage =
     (let orientation = getOrientation imagesPerPage;
          pageWidth = (if orientation = landscape then 297 else 210);
          pageHeight = (if orientation = landscape then 210 else 297);
          padding = 3;
          cols = (if imagesPerPage = 1 then 1 else if imagesPerPage = 2 then 2
                  else if imagesPerPage = 4 then 2 else 3);
          rows = \<lceil>real_of_int imagesPerPage / real_of_int cols\<rceil>;
          availableWidth = pageWidth - (padding * 2);
          availableHeight = pageHeight - (padding * 2);
          cellWidth = availableWidth / real_of_int cols;
          cellHeight = availableHeight / real_of_int rows
      in \<lparr>pageWidth = pageWidth, pageHeight = pageHeight, padding = padding,
          cols = cols, rows = rows, cellWidth = cellWidth, cellHeight = cellHeight\<rparr>)"

text \<open>The inner loop (lines 133-155) from index \<open>i\<close> on.\<close>

fun downloadAllAsPDF_loop ::
  "('img \<Rightarrow> HTMLImage option) \<Rightarrow> layout \<Rightarrow> nat \<Rightarrow> 'img list \<Rightarrow> 'img addImage list option" where
  "downloadAllAsPDF_loop loadImage L i [] = Some []"
| "downloadAllAsPDF_loop loadImage L i (src # rest) =
     (case loadImage src of
        None \<Rightarrow> None
      | Some img \<Rightarrow>
          (let col = int i mod cols L;
               row = \<lfloor>real i / real_of_int (cols L)\<rfloor>;
               imgAspect = real (img_width img) / real (img_height img);
               cellAspect = cellWidth L / cellHeight L;
               drawWidth = (if imgAspect > cellAspect then cellWidth L * 0.99
                            else (cellHeight L * 0.99) * imgAspect);
               drawHeight = (if imgAspect > cellAspect then (cellWidth L * 0.99) / imgAspect
                             else cellHeight L * 0.99);
               x = padding L + real_of_int col * cellWidth L + (cellWidth L - drawWidth) / 2;
               y = padding L + real_of_int row * cellHeight L + (cellHeight L - drawHeight) / 2
           in case downloadAllAsPDF_loop loadImage L (Suc i) rest of
                None \<Rightarrow> None
              | Some added \<Rightarrow>
                  Some (\<lparr>pdf_image = src, at_x = x, at_y = y,
                          at_width = drawWidth, at_height = drawHeight\<rparr> # added)))"

text \<open>The outer loop (lines 126-156) over the pages left.\<close>

fun downloadAllAsPDF_pages ::
  "('img \<Rightarrow> HTMLImage option) \<Rightarrow> layout \<Rightarrow> 'img list list \<Rightarrow> 'img addImage list list option" where
  "downloadAllAsPDF_pages loadImage L [] = Some []"
| "downloadAllAsPDF_pages loadImage L (pageImages # rest) =
     (case downloadAllAsPDF_loop loadImage L 0 pageImages of
        None \<Rightarrow> None
      | Some added \<Rightarrow>
          (case downloadAllAsPDF_pages loadImage L rest of
             None \<Rightarrow> None
           | Some others \<Rightarrow> Some (added # others)))"

text \<open>
  \<open>pgs\<close> is the component's \<^verbatim>\<open>pages\<close>. The constructor opens the first page, so a document
  of no pages still has one, empty.
\<close>

definition downloadAllAsPDF ::
  "('img \<Rightarrow> HTMLImage option) \<Rightarrow> int \<Rightarrow> 'img list list \<Rightarrow> string + 'img pdf" where
  "downloadAllAsPDF loadImage imagesPerPage pgs =
     (case downloadAllAsPDF_pages loadImage (downloadAllAsPDF_layout imagesPerPage) pgs of
        None \<Rightarrow> Inl export_failed
      | Some added \<Rightarrow>
          Inr \<lparr>pdf_orientation = getOrientation imagesPerPage,
               pdf_pages = (if added = [] then [[]] else added),
               saved_as = qris_merged_all\<rparr>)"

section \<open>SettingsModal: export and import of the rectangle\<close>

text \<open>
  A value produced by \<^verbatim>\<open>JSON.parse\<close>. An object is given by its members; the value of a
  key is that of its first entry in the list.
\<close>

datatype json =
  JNull | JBool bool | JNum real | JStr string | JArr "json list" | JObj "(string \<times> json) list"

text \<open>JavaScript's truthiness, as \<^verbatim>\<open>||\<close> tests it.\<close>

fun truthy :: "json \<Rightarrow> bool" where
  "truthy JNull = False"
| "truthy (JBool b) = b"
| "truthy (JNum r) = (r \<noteq> 0)"
| "truthy (JStr s) = (s \<noteq> [])"
| "truthy (JArr vs) = True"
| "truthy (JObj kvs) = True"

text \<open>
  The property reads of the importer: \<^verbatim>\<open>.areaConfig\<close>, \<^verbatim>\<open>.x\<close>, \<^verbatim>\<open>.y\<close>, \<^verbatim>\<open>.width\<close> and
  \<^verbatim>\<open>.height\<close>. \<open>None\<close> is \<^verbatim>\<open>undefined\<close>: no boolean, number, string or array has a
  property of one of these names. A read on \<^verbatim>\<open>null\<close> throws; the importer below handles
  that case before it reads.
\<close>

fun field :: "json \<Rightarrow> string \<Rightarrow> json option" where
  "field (JObj kvs) k = map_of kvs k"
| "field _ k = None"

text \<open>\<^verbatim>\<open>typeof v === 'number'\<close>\<close>

fun typeof_number :: "json option \<Rightarrow> bool" where
  "typeof_number (Some (JNum r)) = True"
| "typeof_number _ = False"

text \<open>The state of the modal that the two handlers touch, and the alerts shown, oldest first.\<close>

record modal =
  modal_frameImage :: "string option"
  modal_areaConfig :: "AreaConfig option"
  saveSuccess :: bool
  alerts :: "string list"

definition invalid_format :: string where
  "invalid_format = ''Format file tidak valid.''"

definition read_failed :: string where
  "read_failed = ''Gagal membaca file. Pastikan file adalah JSON yang valid.''"

text \<open>\<^verbatim>\<open>exportData\<close> (lines 390-393) as \<^verbatim>\<open>JSON.stringify\<close> sees it; \<open>now\<close> is
  \<^verbatim>\<open>new Date().toISOString()\<close>.\<close>

definition exportData :: "AreaConfig \<Rightarrow> string \<Rightarrow> json" where
  "exportData cfg now =
     JObj [(''areaConfig'',
            JObj [(''x'', JNum (area_x cfg)), (''y'', JNum (area_y cfg)),
                  (''width'', JNum (area_width cfg)), (''height'', JNum (area_height cfg))]),
           (''exportedAt'', JStr now)]"

text \<open>
  \<^verbatim>\<open>handleExportConfig\<close> (lines 387-402). \<open>stringify\<close> is the platform's
  \<^verbatim>\<open>JSON.stringify(_, null, 2)\<close>; the result is the content of the downloaded file, \<open>None\<close>
  where the handler returns at its guard.
\<close>

definition handleExportConfig :: "(json \<Rightarrow> 'blob) \<Rightarrow> string \<Rightarrow> modal \<Rightarrow> 'blob option" where
  "handleExportConfig stringify now st =
     (case modal_areaConfig st of
        None \<Rightarrow> None
      | Some cfg \<Rightarrow>
          (case modal_frameImage st of
             None \<Rightarrow> None
           | Some f \<Rightarrow> if f = [] then None else Some (stringify (exportData cfg now))))"

text \<open>\<^verbatim>\<open>const config = data.areaConfig || data\<close> (line 412), for a \<open>data\<close> other than
  \<^verbatim>\<open>null\<close>.\<close>

definition importedConfig :: "json \<Rightarrow> json" where
  "importedConfig data =
     (case field data ''areaConfig'' of
        Some v \<Rightarrow> if truthy v then v else data
      | None \<Rightarrow> data)"

text \<open>
  The four numbers of the object handed to \<^verbatim>\<open>setAreaConfig\<close>; they are numbers when the
  importer gets there (the value 0 below is never used).
\<close>

fun number_of :: "json option \<Rightarrow> real" where
  "number_of (Some (JNum r)) = r"
| "number_of _ = 0"

definition asAreaConfig :: "json \<Rightarrow> AreaConfig" where
  "asAreaConfig config =
     \<lparr>area_x = number_of (field config ''x''), area_y = number_of (field config ''y''),
      area_width = number_of (field config ''width''),
      area_height = number_of (field config ''height'')\<rparr>"

text \<open>
  The body of \<^verbatim>\<open>reader.onload\<close> after \<^verbatim>\<open>JSON.parse\<close> (lines 412-423). On \<^verbatim>\<open>null\<close> the read
  of \<^verbatim>\<open>data.areaConfig\<close> throws and the \<^verbatim>\<open>catch\<close> shows its alert.
\<close>

definition importParsed :: "json \<Rightarrow> modal \<Rightarrow> modal" where
  "importParsed data st =
     (if data = JNull then st\<lparr>alerts := alerts st @ [read_failed]\<rparr>
      else
        (let config = importedConfig data
         in if typeof_number (field config ''x'') \<and> typeof_number (field config ''y'') \<and>
               typeof_number (field config ''width'') \<and> typeof_number (field config ''height'')
            then st\<lparr>modal_areaConfig := Some (asAreaConfig config), saveSuccess := False\<rparr>
            else st\<lparr>alerts := alerts st @ [invalid_format]\<rparr>))"

text \<open>
  \<^verbatim>\<open>reader.onload\<close> of \<^verbatim>\<open>handleImportConfig\<close> (lines 409-427) on the text of the chosen
  file. \<open>parse\<close> is the platform's \<^verbatim>\<open>JSON.parse\<close>, \<open>None\<close> where it throws.
\<close>

definition handleImportConfig :: "('blob \<Rightarrow> json option) \<Rightarrow> 'blob \<Rightarrow> modal \<Rightarrow> modal" where
  "handleImportConfig parse text st =
     (case parse text of
        None \<Rightarrow> st\<lparr>alerts := alerts st @ [read_failed]\<rparr>
      | Some data \<Rightarrow> importParsed data st)"

section \<open>Properties of the rectangle editor\<close>

text \<open>
  C8. Resizing from the top-left corner, original rectangle \<open>{x:10, y:10, width:40, height:40}\<close>,
  pointer moved by \<open>(+5, +5)\<close> from wherever the drag started: the candidate is
  \<open>{x:15, y:15, width:35, height:35}\<close>, and its bottom-right corner is still \<open>(50, 50)\<close>.
\<close>

theorem resize_tl_example:
  "tempArea (handleMouseMove_at \<lparr>pos_x = sx + 5, pos_y = sy + 5\<rparr>
       (st\<lparr>dragMode := resize_tl, dragStart := Some \<lparr>pos_x = sx, pos_y = sy\<rparr>,
           originalArea := Some \<lparr>area_x = 10, area_y = 10, area_width = 40, area_height = 40\<rparr>\<rparr>))
     = Some \<lparr>area_x = 15, area_y = 15, area_width = 35, area_height = 35\<rparr>
   \<and> area_x (resizeArea resize_tl \<lparr>area_x = 10, area_y = 10, area_width = 40, area_height = 40\<rparr>
         \<lparr>pos_x = sx, pos_y = sy\<rparr> \<lparr>pos_x = sx + 5, pos_y = sy + 5\<rparr>)
       + area_width (resizeArea resize_tl \<lparr>area_x = 10, area_y = 10, area_width = 40, area_height = 40\<rparr>
         \<lparr>pos_x = sx, pos_y = sy\<rparr> \<lparr>pos_x = sx + 5, pos_y = sy + 5\<rparr>) = 50
   \<and> area_y (resizeArea resize_tl \<lparr>area_x = 10, area_y = 10, area_width = 40, area_height = 40\<rparr>
         \<lparr>pos_x = sx, pos_y = sy\<rparr> \<lparr>pos_x = sx + 5, pos_y = sy + 5\<rparr>)
       + area_height (resizeArea resize_tl \<lparr>area_x = 10, area_y = 10, area_width = 40, area_height = 40\<rparr>
         \<lparr>pos_x = sx, pos_y = sy\<rparr> \<lparr>pos_x = sx + 5, pos_y = sy + 5\<rparr>) = 50"
  by (simp add: handleMouseMove_at_def resizeArea_def Let_def)

text \<open>
  C2. The candidate of a resize can leave the frame. With the persisted rectangle
  \<open>{x:0, y:0, width:50, height:50}\<close> (inside the bounds) in a container of 100 by 100 pixels at
  the origin, a mouse-down at \<open>(48, 48)\<close> is within \<open>handleSize\<close> of the bottom-right corner
  and starts \<^verbatim>\<open>'resize-br'\<close>; the mouse-move to \<open>(100, 100)\<close> gives the candidate
  \<open>{x:0, y:0, width:102, height:102}\<close>, whose right and bottom edges are at 102: the position is
  clamped against \<open>100 - newW\<close>, but the size itself is never cut to the frame.
\<close>

theorem resize_br_leaves_frame:
  "in_bounds \<lparr>area_x = 0, area_y = 0, area_width = 50, area_height = 50\<rparr>
   \<and> dragMode (handleMouseDown
        (Some \<lparr>rect_left = 0, rect_top = 0, rect_width = 100, rect_height = 100\<rparr>)
        \<lparr>clientX = 48, clientY = 48\<rparr>
        \<lparr>dragMode = mode_none, dragStart = None, tempArea = None, originalArea = None,
         areaConfig = Some \<lparr>area_x = 0, area_y = 0, area_width = 50, area_height = 50\<rparr>,
         areaChanged = []\<rparr>) = resize_br
   \<and> tempArea (handleMouseMove
        (Some \<lparr>rect_left = 0, rect_top = 0, rect_width = 100, rect_height = 100\<rparr>)
        \<lparr>clientX = 100, clientY = 100\<rparr>
        (handleMouseDown
          (Some \<lparr>rect_left = 0, rect_top = 0, rect_width = 100, rect_height = 100\<rparr>)
          \<lparr>clientX = 48, clientY = 48\<rparr>
          \<lparr>dragMode = mode_none, dragStart = None, tempArea = None, originalArea = None,
           areaConfig = Some \<lparr>area_x = 0, area_y = 0, area_width = 50, area_height = 50\<rparr>,
           areaChanged = []\<rparr>))
       = Some \<lparr>area_x = 0, area_y = 0, area_width = 102, area_height = 102\<rparr>
   \<and> \<not> in_bounds \<lparr>area_x = 0, area_y = 0, area_width = 102, area_height = 102\<rparr>"
  by (simp add: handleMouseDown_def handleMouseMove_def handleMouseDown_at_def
      handleMouseMove_at_def getRelativePosition_def getCornerAtPosition_def corners_def
      handleSize_def resizeArea_def in_bounds_def Let_def)

text \<open>
  What the floor and the clamp of the resize branch do establish, for every corner, original
  rectangle and pair of positions: the candidate starts inside the frame, is at least 2 by 2,
  and ends inside the frame on each axis on which its size is at most 100.
\<close>

lemma clamp_position:
  "0 \<le> max 0 (min (100 - w) (v::real))"
  "max 0 (min (100 - w) (v::real)) + w \<le> 100 \<longleftrightarrow> w \<le> 100"
  by auto

lemma floor_two: "2 \<le> (if w < 2 then 2 else (w::real))"
  by simp

lemma resizeArea_clamped:
  "0 \<le> area_x (resizeArea m orig start pos) \<and> 0 \<le> area_y (resizeArea m orig start pos) \<and>
   2 \<le> area_width (resizeArea m orig start pos) \<and> 2 \<le> area_height (resizeArea m orig start pos) \<and>
   (area_x (resizeArea m orig start pos) + area_width (resizeArea m orig start pos) \<le> 100
      \<longleftrightarrow> area_width (resizeArea m orig start pos) \<le> 100) \<and>
   (area_y (resizeArea m orig start pos) + area_height (resizeArea m orig start pos) \<le> 100
      \<longleftrightarrow> area_height (resizeArea m orig start pos) \<le> 100)"
  unfolding resizeArea_def Let_def
  by (simp only: split_conv clamp_position floor_two AreaConfig.simps simp_thms
      split: prod.split if_split)

subsection \<open>Pointer-up\<close>

lemma getCornerAtPosition_not_none: "getCornerAtPosition pos area \<noteq> mode_none"
  by (simp add: getCornerAtPosition_def corners_def split: option.splits if_splits prod.splits)

lemma handleMouseDown_mode: "dragMode (handleMouseDown c e st) \<noteq> mode_none"
  by (simp add: handleMouseDown_def handleMouseDown_at_def Let_def getCornerAtPosition_not_none
      split: option.splits)

lemma handleMouseDown_keeps:
  "areaConfig (handleMouseDown c e st) = areaConfig st"
  "areaChanged (handleMouseDown c e st) = areaChanged st"
  by (simp_all add: handleMouseDown_def handleMouseDown_at_def Let_def split: option.splits)

lemma handleMouseMove_keeps:
  "dragMode (handleMouseMove c e st) = dragMode st"
  "areaConfig (handleMouseMove c e st) = areaConfig st"
  "areaChanged (handleMouseMove c e st) = areaChanged st"
  by (simp_all add: handleMouseMove_def handleMouseMove_at_def split: option.splits)

lemma moves_keeps:
  "dragMode (moves c es st) = dragMode st \<and>
   areaConfig (moves c es st) = areaConfig st \<and>
   areaChanged (moves c es st) = areaChanged st"
  unfolding moves_def
  by (induction es arbitrary: st) (simp_all add: handleMouseMove_keeps)

lemma selector_eq:
  "(a::selector) = b \<longleftrightarrow>
     dragMode a = dragMode b \<and> dragStart a = dragStart b \<and> tempArea a = tempArea b \<and>
     originalArea a = originalArea b \<and> areaConfig a = areaConfig b \<and>
     areaChanged a = areaChanged b"
  by auto

text \<open>
  C5. A whole pointer gesture from any state \<open>st\<close>: with \<open>t\<close> the candidate held when the
  button is released, the gesture ends in \<open>st\<close> with the session cleared and, exactly when
  the candidate exists with \<open>width > 1\<close> and \<open>height > 1\<close>, with the candidate as the persisted
  rectangle and one more call of \<^verbatim>\<open>onAreaChange\<close>; in the other cases the persisted
  rectangle and the calls are those before the mouse-down.
\<close>

theorem pointer_up_commit:
  "gesture c down es st =
     (case tempArea (moves c es (handleMouseDown c down st)) of
        Some t \<Rightarrow>
          if area_width t > 1 \<and> area_height t > 1
          then clearSession (st\<lparr>areaConfig := Some t, areaChanged := areaChanged st @ [Some t]\<rparr>)
          else clearSession st
      | None \<Rightarrow> clearSession st)"
proof -
  let ?st1 = "moves c es (handleMouseDown c down st)"
  have active: "dragMode ?st1 \<noteq> mode_none"
    by (simp add: moves_keeps handleMouseDown_mode)
  have kept: "areaConfig ?st1 = areaConfig st" "areaChanged ?st1 = areaChanged st"
    by (simp_all add: moves_keeps handleMouseDown_keeps)
  show ?thesis
    using active kept
    by (auto simp add: gesture_def handleMouseUp_def clearSession_def onAreaChange_def
        selector_eq split: option.splits)
qed

text \<open>
  Two gestures on a 100 by 100 container with nothing persisted: drawing from \<open>(10, 10)\<close> to
  \<open>(30, 40)\<close> commits \<open>{x:10, y:10, width:20, height:30}\<close>; a click without a move leaves a
  candidate of size 0, which is discarded.
\<close>

theorem pointer_up_commit_witness:
  "gesture (Some \<lparr>rect_left = 0, rect_top = 0, rect_width = 100, rect_height = 100\<rparr>)
      \<lparr>clientX = 10, clientY = 10\<rparr> [\<lparr>clientX = 30, clientY = 40\<rparr>]
      \<lparr>dragMode = mode_none, dragStart = None, tempArea = None, originalArea = None,
       areaConfig = None, areaChanged = []\<rparr>
    = \<lparr>dragMode = mode_none, dragStart = None, tempArea = None, originalArea = None,
       areaConfig = Some \<lparr>area_x = 10, area_y = 10, area_width = 20, area_height = 30\<rparr>,
       areaChanged = [Some \<lparr>area_x = 10, area_y = 10, area_width = 20, area_height = 30\<rparr>]\<rparr>
   \<and> gesture (Some \<lparr>rect_left = 0, rect_top = 0, rect_width = 100, rect_height = 100\<rparr>)
      \<lparr>clientX = 10, clientY = 10\<rparr> []
      \<lparr>dragMode = mode_none, dragStart = None, tempArea = None, originalArea = None,
       areaConfig = None, areaChanged = []\<rparr>
    = \<lparr>dragMode = mode_none, dragStart = None, tempArea = None, originalArea = None,
       areaConfig = None, areaChanged = []\<rparr>"
  using pointer_up_commit
    [of "Some \<lparr>rect_left = 0, rect_top = 0, rect_width = 100, rect_height = 100\<rparr>"
        "\<lparr>clientX = 10, clientY = 10\<rparr>" "[\<lparr>clientX = 30, clientY = 40\<rparr>]"
        "\<lparr>dragMode = mode_none, dragStart = None, tempArea = None, originalArea = None,
          areaConfig = None, areaChanged = []\<rparr>"]
    pointer_up_commit
    [of "Some \<lparr>rect_left = 0, rect_top = 0, rect_width = 100, rect_height = 100\<rparr>"
        "\<lparr>clientX = 10, clientY = 10\<rparr>" "[]"
        "\<lparr>dragMode = mode_none, dragStart = None, tempArea = None, originalArea = None,
          areaConfig = None, areaChanged = []\<rparr>"]
  by (simp add: moves_def handleMouseDown_def handleMouseMove_def handleMouseDown_at_def
      handleMouseMove_at_def getRelativePosition_def drawArea_def clearSession_def)

section \<open>Properties of the compositor\<close>

lemma mergeLoop_eq:
  "mergeLoop loadImage frameImg target qs acc =
     acc @ map (\<lambda>q. \<lparr>canvas_width = img_width frameImg, canvas_height = img_height frameImg,
                      frame = frameImg, qris = the (loadImage (preview q)),
                      qris_at = drawQris target (the (loadImage (preview q)))\<rparr>)
             (filter (\<lambda>q. loadImage (preview q) \<noteq> None) qs)"
  by (induction qs arbitrary: acc) (auto split: option.splits)

lemma count_loaded:
  "length (filter (\<lambda>q. loadImage (preview q) \<noteq> None) qs) =
     length qs - length (filter (\<lambda>q. loadImage (preview q) = None) qs)"
  by (induction qs) (auto simp: Suc_diff_le)

text \<open>
  C4. One compositing pass with a canvas and a frame that loads: the callback receives a
  list (the pass is not cut short by a source that fails to decode); its length is the number
  \<open>N\<close> of sources minus the number \<open>k\<close> of those that fail to decode; and the code images in
  it are the decoded sources, in the order of the input.
\<close>

theorem merge_skips_failures:
  assumes "canvas" and "loadImage frameImage = Some frameImg"
  shows "\<exists>res. mergeImages loadImage canvas frameImage qrisImages cfg = Some res \<and>
           length res = length qrisImages
                          - length (filter (\<lambda>q. loadImage (preview q) = None) qrisImages) \<and>
           map qris res =
             map (\<lambda>q. the (loadImage (preview q)))
               (filter (\<lambda>q. loadImage (preview q) \<noteq> None) qrisImages)"
proof -
  let ?res = "mergeLoop loadImage frameImg (targetArea cfg frameImg) qrisImages []"
  have "mergeImages loadImage canvas frameImage qrisImages cfg = Some ?res"
    using assms by (simp add: mergeImages_def)
  moreover have "length ?res = length qrisImages
                   - length (filter (\<lambda>q. loadImage (preview q) = None) qrisImages)"
    by (simp only: mergeLoop_eq append_Nil length_map count_loaded)
  moreover have "map qris ?res =
             map (\<lambda>q. the (loadImage (preview q)))
               (filter (\<lambda>q. loadImage (preview q) \<noteq> None) qrisImages)"
    by (simp add: mergeLoop_eq o_def)
  ultimately show ?thesis by blast
qed

text \<open>Three sources, the second of which does not decode: two composited images, first and third.\<close>

theorem merge_skips_failures_witness:
  "\<exists>res. mergeImages decoder True ''frame''
            [\<lparr>qris_id = ''a'', preview = ''one''\<rparr>, \<lparr>qris_id = ''b'', preview = ''broken''\<rparr>,
             \<lparr>qris_id = ''c'', preview = ''three''\<rparr>]
            \<lparr>area_x = 25, area_y = 25, area_width = 25, area_height = 50\<rparr> = Some res \<and>
         length res = 2 \<and>
         map qris res = [\<lparr>img_src = ''one'', img_width = 200, img_height = 100\<rparr>,
                         \<lparr>img_src = ''three'', img_width = 200, img_height = 100\<rparr>]"
  using merge_skips_failures [of True decoder "''frame''"
      "\<lparr>img_src = ''frame'', img_width = 400, img_height = 400\<rparr>"
      "[\<lparr>qris_id = ''a'', preview = ''one''\<rparr>, \<lparr>qris_id = ''b'', preview = ''broken''\<rparr>,
        \<lparr>qris_id = ''c'', preview = ''three''\<rparr>]"
      "\<lparr>area_x = 25, area_y = 25, area_width = 25, area_height = 50\<rparr>"]
  by (auto simp add: decoder_def)

lemma drawQris_wide:
  assumes "0 < area_width t" "0 < area_height t" "0 < img_width s" "0 < img_height s"
    and "real (img_width s) / real (img_height s) > area_width t / area_height t"
  shows "drawWidth (drawQris t s) = area_width t"
    "drawHeight (drawQris t s) = area_width t / (real (img_width s) / real (img_height s))"
    "drawX (drawQris t s) = area_x t"
    "drawY (drawQris t s) = area_y t + (area_height t - drawHeight (drawQris t s)) / 2"
    "drawHeight (drawQris t s) < area_height t"
    "0 < drawHeight (drawQris t s)"
proof -
  show "drawWidth (drawQris t s) = area_width t"
    "drawHeight (drawQris t s) = area_width t / (real (img_width s) / real (img_height s))"
    "drawX (drawQris t s) = area_x t"
    "drawY (drawQris t s) = area_y t + (area_height t - drawHeight (drawQris t s)) / 2"
    using assms(5) by (simp_all add: drawQris_def Let_def)
  have "area_width t * real (img_height s) < real (img_width s) * area_height t"
    using assms by (simp add: field_simps)
  then show "drawHeight (drawQris t s) < area_height t"
    using assms by (simp add: drawQris_def Let_def field_simps)
  show "0 < drawHeight (drawQris t s)"
    using assms by (simp add: drawQris_def Let_def)
qed

lemma drawQris_tall:
  assumes "0 < area_width t" "0 < area_height t" "0 < img_width s" "0 < img_height s"
    and "\<not> real (img_width s) / real (img_height s) > area_width t / area_height t"
  shows "drawHeight (drawQris t s) = area_height t"
    "drawWidth (drawQris t s) = area_height t * (real (img_width s) / real (img_height s))"
    "drawY (drawQris t s) = area_y t"
    "drawX (drawQris t s) = area_x t + (area_width t - drawWidth (drawQris t s)) / 2"
    "drawWidth (drawQris t s) \<le> area_width t"
    "0 < drawWidth (drawQris t s)"
proof -
  show "drawHeight (drawQris t s) = area_height t"
    "drawWidth (drawQris t s) = area_height t * (real (img_width s) / real (img_height s))"
    "drawY (drawQris t s) = area_y t"
    "drawX (drawQris t s) = area_x t + (area_width t - drawWidth (drawQris t s)) / 2"
    using assms(5) by (simp_all add: drawQris_def Let_def)
  have "real (img_width s) * area_height t \<le> area_width t * real (img_height s)"
    using assms by (simp add: field_simps)
  then show "drawWidth (drawQris t s) \<le> area_width t"
    using assms by (simp add: drawQris_def Let_def field_simps)
  show "0 < drawWidth (drawQris t s)"
    using assms by (simp add: drawQris_def Let_def)
qed


text \<open>
  C1. For a target rectangle \<open>t\<close> in pixels with positive width and height and a source image
  \<open>s\<close> with positive width and height: if the source is relatively wider than the target
  (\<open>Sw/Sh > w/h\<close>) the draw rectangle has \<open>drawW = w\<close>, \<open>drawH = w/(Sw/Sh)\<close>, \<open>drawX = x\<close>,
  \<open>drawY = y + (h - drawH)/2\<close>; otherwise \<open>drawH = h\<close>, \<open>drawW = h * (Sw/Sh)\<close>, \<open>drawY = y\<close>,
  \<open>drawX = x + (w - drawW)/2\<close>. Either way \<open>drawW/drawH = Sw/Sh\<close> and the draw rectangle lies
  inside the target. For every background image \<open>frameImg\<close> whose target rectangle is \<open>t\<close>,
  that draw rectangle is the one the compositor records for \<open>s\<close>. The example of the
  specification (target \<open>{100, 100, 100, 200}\<close> on a 400 by 400 background, source 200 by 100,
  drawn at \<open>drawW = 100, drawH = 50, drawX = 100, drawY = 175\<close>) is the instance that follows.
\<close>

theorem aspect_fit:
  assumes "0 < area_width t" and "0 < area_height t"
    and "0 < img_width s" and "0 < img_height s"
  shows "(if real (img_width s) / real (img_height s) > area_width t / area_height t
          then drawWidth (drawQris t s) = area_width t \<and>
               drawHeight (drawQris t s)
                 = area_width t / (real (img_width s) / real (img_height s)) \<and>
               drawX (drawQris t s) = area_x t \<and>
               drawY (drawQris t s) = area_y t + (area_height t - drawHeight (drawQris t s)) / 2
          else drawHeight (drawQris t s) = area_height t \<and>
               drawWidth (drawQris t s)
                 = area_height t * (real (img_width s) / real (img_height s)) \<and>
               drawY (drawQris t s) = area_y t \<and>
               drawX (drawQris t s) = area_x t + (area_width t - drawWidth (drawQris t s)) / 2)
       \<and> drawWidth (drawQris t s) / drawHeight (drawQris t s)
           = real (img_width s) / real (img_height s)
       \<and> area_x t \<le> drawX (drawQris t s) \<and> area_y t \<le> drawY (drawQris t s)
       \<and> drawX (drawQris t s) + drawWidth (drawQris t s) \<le> area_x t + area_width t
       \<and> drawY (drawQris t s) + drawHeight (drawQris t s) \<le> area_y t + area_height t
       \<and> (loadImage frameImage = Some frameImg \<and> loadImage (preview q) = Some s \<and>
            t = targetArea cfg frameImg \<longrightarrow>
          mergeImages loadImage True frameImage [q] cfg =
            Some [\<lparr>canvas_width = img_width frameImg, canvas_height = img_height frameImg,
                   frame = frameImg, qris = s, qris_at = drawQris t s\<rparr>])"
proof (cases "real (img_width s) / real (img_height s) > area_width t / area_height t")
  case True
  note w = drawQris_wide [OF assms True]
  have "drawWidth (drawQris t s) / drawHeight (drawQris t s)
          = real (img_width s) / real (img_height s)"
    using assms by (simp add: w(1,2))
  moreover have "area_y t \<le> drawY (drawQris t s)"
    using w(5) by (simp add: w(4))
  moreover have "drawY (drawQris t s) + drawHeight (drawQris t s) \<le> area_y t + area_height t"
    using w(5) by (simp add: w(4) field_simps)
  ultimately show ?thesis
    using True w(1,2,3,4) by (simp add: mergeImages_def)
next
  case False
  note h = drawQris_tall [OF assms False]
  have "drawWidth (drawQris t s) / drawHeight (drawQris t s)
          = real (img_width s) / real (img_height s)"
    using assms by (simp add: h(1,2))
  moreover have "area_x t \<le> drawX (drawQris t s)"
    using h(5) by (simp add: h(4))
  moreover have "drawX (drawQris t s) + drawWidth (drawQris t s) \<le> area_x t + area_width t"
    using h(5) by (simp add: h(4) field_simps)
  ultimately show ?thesis
    using False h(1,2,3,4) by (simp add: mergeImages_def)
qed

text \<open>
  The area \<open>{25, 25, 25, 50}\<close> percent of a 400 by 400 frame is the pixel rectangle
  \<open>{100, 100, 100, 200}\<close>; a source of 200 by 100 is drawn there at \<open>(100, 175)\<close> with size
  100 by 50, of aspect 2.
\<close>

theorem aspect_fit_witness:
  "targetArea \<lparr>area_x = 25, area_y = 25, area_width = 25, area_height = 50\<rparr>
      \<lparr>img_src = ''frame'', img_width = 400, img_height = 400\<rparr>
     = \<lparr>area_x = 100, area_y = 100, area_width = 100, area_height = 200\<rparr>
   \<and> drawQris \<lparr>area_x = 100, area_y = 100, area_width = 100, area_height = 200\<rparr>
        \<lparr>img_src = ''one'', img_width = 200, img_height = 100\<rparr>
     = \<lparr>drawX = 100, drawY = 175, drawWidth = 100, drawHeight = 50\<rparr>
   \<and> drawWidth (drawQris \<lparr>area_x = 100, area_y = 100, area_width = 100, area_height = 200\<rparr>
        \<lparr>img_src = ''one'', img_width = 200, img_height = 100\<rparr>)
      / drawHeight (drawQris \<lparr>area_x = 100, area_y = 100, area_width = 100, area_height = 200\<rparr>
        \<lparr>img_src = ''one'', img_width = 200, img_height = 100\<rparr>) = 2
   \<and> mergeImages decoder True ''frame'' [\<lparr>qris_id = ''a'', preview = ''one''\<rparr>]
        \<lparr>area_x = 25, area_y = 25, area_width = 25, area_height = 50\<rparr>
     = Some [\<lparr>canvas_width = 400, canvas_height = 400,
              frame = \<lparr>img_src = ''frame'', img_width = 400, img_height = 400\<rparr>,
              qris = \<lparr>img_src = ''one'', img_width = 200, img_height = 100\<rparr>,
              qris_at = \<lparr>drawX = 100, drawY = 175, drawWidth = 100, drawHeight = 50\<rparr>\<rparr>]"
  using aspect_fit [of "\<lparr>area_x = 100, area_y = 100, area_width = 100, area_height = 200\<rparr>"
      "\<lparr>img_src = ''one'', img_width = 200, img_height = 100\<rparr>"
      decoder "''frame''" "\<lparr>img_src = ''frame'', img_width = 400, img_height = 400\<rparr>"
      "\<lparr>qris_id = ''a'', preview = ''one''\<rparr>"
      "\<lparr>area_x = 25, area_y = 25, area_width = 25, area_height = 50\<rparr>"]
  by (simp add: targetArea_def drawQris_def decoder_def Let_def)

section \<open>Properties of the page layout\<close>

lemma slice_from:
  "a \<le> length xs \<Longrightarrow> slice xs (int a) (int a + int n) = take n (drop a xs)"
  by (simp add: slice_def Let_def min_def nat_diff_distrib' nat_add_distrib)

lemma page_count_le:
  assumes "0 < (n::nat)" and "len \<le> k * n"
  shows "(len + n - 1) div n \<le> k"
proof -
  have "len + n - 1 < (k + 1) * n" using assms by simp
  then have "(len + n - 1) div n < k + 1"
    using assms(1) by (simp add: div_less_iff_less_mult)
  then show ?thesis by simp
qed

lemma page_count_gt:
  assumes "0 < (n::nat)" and "k * n < len"
  shows "k < (len + n - 1) div n"
proof -
  have "(k + 1) * n \<le> len + n - 1" using assms by simp
  then have "k + 1 \<le> (len + n - 1) div n"
    using assms(1) by (simp add: less_eq_div_iff_mult_less_eq)
  then show ?thesis by simp
qed

lemma pagesLoop_closed:
  assumes "0 < n"
  shows "pagesLoop xs (int n) (int (k * n)) acc =
           Some (acc @ map (\<lambda>j. take n (drop (j * n) xs)) [k ..< (length xs + n - 1) div n])"
proof (induction "length xs - k * n" arbitrary: k acc rule: less_induct)
  case less
  show ?case
  proof (cases "k * n < length xs")
    case True
    have k: "k < (length xs + n - 1) div n"
      by (rule page_count_gt [OF assms True])
    have smaller: "length xs - Suc k * n < length xs - k * n"
      using True assms by simp
    have c: "int (k * n) < int (length xs)"
      using True by (simp only: of_nat_less_iff)
    have e: "int (Suc k * n) = int (k * n) + int n"
      by (simp add: algebra_simps)
    have "pagesLoop xs (int n) (int (k * n)) acc =
            pagesLoop xs (int n) (int (Suc k * n)) (acc @ [slice xs (int (k * n)) (int (k * n) + int n)])"
      by (subst pagesLoop.simps) (simp only: c if_True e)
    also have "\<dots> = Some ((acc @ [take n (drop (k * n) xs)])
                       @ map (\<lambda>j. take n (drop (j * n) xs)) [Suc k ..< (length xs + n - 1) div n])"
      using True by (simp only: less [OF smaller] slice_from [OF less_imp_le])
    finally show ?thesis
      using k by (simp add: upt_conv_Cons)
  next
    case False
    then have "length xs \<le> k * n" by simp
    then have "(length xs + n - 1) div n \<le> k"
      by (rule page_count_le [OF assms])
    moreover have "\<not> int (k * n) < int (length xs)"
      using False by (simp only: of_nat_less_iff not_False_eq_True)
    then have "pagesLoop xs (int n) (int (k * n)) acc = Some acc"
      by (subst pagesLoop.simps) (simp only: if_False)
    ultimately show ?thesis by simp
  qed
qed

lemma pages_closed:
  assumes "0 < imagesPerPage"
  shows "pages mergedImages imagesPerPage =
           Some (map (\<lambda>j. take (nat imagesPerPage) (drop (j * nat imagesPerPage) mergedImages))
                  [0 ..< (length mergedImages + nat imagesPerPage - 1) div nat imagesPerPage])"
proof -
  have "0 < nat imagesPerPage" using assms by simp
  from pagesLoop_closed [OF this, of mergedImages 0 "[]"] assms
  show ?thesis by (simp add: pages_def)
qed

lemma concat_chunks:
  "concat (map (\<lambda>j. take n (drop (j * n) xs)) [0 ..< m]) = take (m * n) xs"
proof (induction m)
  case 0
  then show ?case by simp
next
  case (Suc m)
  have "take (m * n) xs @ take n (drop (m * n) xs) = take (m * n + n) xs"
    by (simp add: take_add)
  then show ?case using Suc by (simp add: add.commute)
qed

lemma page_count_covers:
  assumes "0 < (n::nat)"
  shows "len \<le> ((len + n - 1) div n) * n"
proof (rule ccontr)
  assume "\<not> len \<le> ((len + n - 1) div n) * n"
  then have "((len + n - 1) div n) * n < len" by simp
  from page_count_gt [OF assms this] show False by simp
qed

lemma chunk_length:
  "length (take n (drop (k * n) xs)) = min n (length xs - k * n)"
  by (simp add: min.commute)

text \<open>
  C6. For a positive \<^verbatim>\<open>imagesPerPage\<close> the loop ends, and its pages are the consecutive
  chunks of the input: page \<open>k\<close> is the \<^verbatim>\<open>imagesPerPage\<close> images from position
  \<open>k * imagesPerPage\<close> on, the pages joined give the input back, every page but the last has
  exactly \<^verbatim>\<open>imagesPerPage\<close> images, and the last has at least one and at most
  \<^verbatim>\<open>imagesPerPage\<close>. Ten images with \<^verbatim>\<open>imagesPerPage = 4\<close> give three pages of 4, 4 and 2
  images; the grid is then 2 columns (on screen and in both exports) by 2 rows, and the
  orientation is landscape.
\<close>

theorem pages_partition:
  assumes "0 < imagesPerPage"
  shows "(\<exists>ps. pages mergedImages imagesPerPage = Some ps
            \<and> concat ps = mergedImages
            \<and> length ps = (length mergedImages + nat imagesPerPage - 1) div nat imagesPerPage
            \<and> (\<forall>k < length ps.
                  ps ! k = take (nat imagesPerPage) (drop (k * nat imagesPerPage) mergedImages))
            \<and> (\<forall>k. Suc k < length ps \<longrightarrow> length (ps ! k) = nat imagesPerPage)
            \<and> (ps \<noteq> [] \<longrightarrow> 0 < length (last ps) \<and> length (last ps) \<le> nat imagesPerPage)
            \<and> (length mergedImages = 10 \<and> imagesPerPage = 4 \<longrightarrow> map length ps = [4, 4, 2]))
         \<and> getGridClass 4 = ''grid-cols-2''
         \<and> cols (downloadPageAsPDF_layout 4) = 2 \<and> rows (downloadPageAsPDF_layout 4) = 2
         \<and> cols (downloadAllAsPDF_layout 4) = 2 \<and> rows (downloadAllAsPDF_layout 4) = 2
         \<and> getOrientation 4 = landscape"
proof -
  define n where "n = nat imagesPerPage"
  define m where "m = (length mergedImages + n - 1) div n"
  define ps where "ps = map (\<lambda>j. take n (drop (j * n) mergedImages)) [0 ..< m]"
  have n: "0 < n" using assms by (simp add: n_def)
  have run: "pages mergedImages imagesPerPage = Some ps"
    using pages_closed [OF assms] by (simp add: ps_def m_def n_def)
  have len: "length ps = m" by (simp add: ps_def)
  have nth: "ps ! k = take n (drop (k * n) mergedImages)" if "k < m" for k
    using that by (simp add: ps_def)
  have before: "k * n < length mergedImages" if "k < m" for k
  proof (rule ccontr)
    assume "\<not> k * n < length mergedImages"
    then have "length mergedImages \<le> k * n" by simp
    from page_count_le [OF n this] that show False by (simp add: m_def)
  qed
  have joined: "concat ps = mergedImages"
    using page_count_covers [OF n, of "length mergedImages"]
    by (simp add: ps_def concat_chunks m_def)
  have full: "length (ps ! k) = n" if "Suc k < m" for k
  proof -
    have "Suc k * n < length mergedImages" using that by (rule before)
    then have "n \<le> length mergedImages - k * n" by simp
    moreover have "k < m" using that by simp
    ultimately show ?thesis by (simp add: nth chunk_length)
  qed
  have final: "0 < length (last ps) \<and> length (last ps) \<le> n" if "ps \<noteq> []"
  proof -
    from that have m: "0 < m" using len by (cases "m = 0") auto
    then have "last ps = ps ! (m - 1)" using that len by (simp add: last_conv_nth)
    then have "length (last ps) = min n (length mergedImages - (m - 1) * n)"
      using m by (simp add: nth chunk_length)
    moreover have "(m - 1) * n < length mergedImages" using m by (intro before) simp
    ultimately show ?thesis using n by simp
  qed
  have ten: "map length ps = [4, 4, 2]" if "length mergedImages = 10 \<and> imagesPerPage = 4"
  proof -
    have "n = 4" using that by (simp add: n_def)
    moreover from this that have "m = 3" by (simp add: m_def)
    moreover have "[0 ..< 3] = [0, 1, 2::nat]" by (simp add: upt_rec)
    ultimately show ?thesis using that by (simp add: ps_def)
  qed
  have grid: "getGridClass 4 = ''grid-cols-2''"
    "cols (downloadPageAsPDF_layout 4) = 2" "rows (downloadPageAsPDF_layout 4) = 2"
    "cols (downloadAllAsPDF_layout 4) = 2" "rows (downloadAllAsPDF_layout 4) = 2"
    "getOrientation 4 = landscape"
    by (simp_all add: getGridClass_def downloadPageAsPDF_layout_def downloadAllAsPDF_layout_def
        getOrientation_def)
  have count: "length ps = (length mergedImages + nat imagesPerPage - 1) div nat imagesPerPage"
    unfolding len m_def n_def ..
  have chunks: "\<forall>k < length ps.
      ps ! k = take (nat imagesPerPage) (drop (k * nat imagesPerPage) mergedImages)"
    using nth unfolding len n_def by blast
  have inner: "\<forall>k. Suc k < length ps \<longrightarrow> length (ps ! k) = nat imagesPerPage"
    using full unfolding len n_def by blast
  have tail: "ps \<noteq> [] \<longrightarrow> 0 < length (last ps) \<and> length (last ps) \<le> nat imagesPerPage"
    using final unfolding n_def by blast
  have example: "length mergedImages = 10 \<and> imagesPerPage = 4 \<longrightarrow> map length ps = [4, 4, 2]"
    using ten by blast
  from run joined count chunks inner tail example grid show ?thesis
    by (intro conjI exI [of _ ps])
qed

text \<open>The ten images \<open>1, ..., 10\<close> at four per page.\<close>

theorem pages_partition_witness:
  "(0::int) < 4 \<and>
   (\<exists>ps. pages [1, 2, 3, 4, 5, 6, 7, 8, 9, 10 :: nat] 4 = Some ps
      \<and> concat ps = [1, 2, 3, 4, 5, 6, 7, 8, 9, 10] \<and> length ps = 3
      \<and> ps ! 0 = [1, 2, 3, 4] \<and> ps ! 1 = [5, 6, 7, 8] \<and> ps ! 2 = [9, 10]
      \<and> map length ps = [4, 4, 2])"
proof -
  let ?xs = "[1, 2, 3, 4, 5, 6, 7, 8, 9, 10 :: nat]"
  have pos: "(0::int) < 4" by simp
  from pages_partition [OF pos, of ?xs]
  have "\<exists>ps. pages ?xs 4 = Some ps
            \<and> concat ps = ?xs
            \<and> length ps = (length ?xs + nat 4 - 1) div nat 4
            \<and> (\<forall>k < length ps. ps ! k = take (nat 4) (drop (k * nat 4) ?xs))
            \<and> (\<forall>k. Suc k < length ps \<longrightarrow> length (ps ! k) = nat 4)
            \<and> (ps \<noteq> [] \<longrightarrow> 0 < length (last ps) \<and> length (last ps) \<le> nat 4)
            \<and> (length ?xs = 10 \<and> (4::int) = 4 \<longrightarrow> map length ps = [4, 4, 2])"
    by (rule conjunct1)
  then obtain ps where
    run: "pages ?xs 4 = Some ps" and joined: "concat ps = ?xs"
    and count: "length ps = (length ?xs + nat 4 - 1) div nat 4"
    and chunks: "\<forall>k < length ps. ps ! k = take (nat 4) (drop (k * nat 4) ?xs)"
    and example: "length ?xs = 10 \<and> (4::int) = 4 \<longrightarrow> map length ps = [4, 4, 2]"
    by (elim exE conjE)
  have three: "length ps = 3" using count by simp
  have "ps ! 0 = [1, 2, 3, 4]" "ps ! 1 = [5, 6, 7, 8]" "ps ! 2 = [9, 10]"
    using chunks three by simp_all
  moreover have "map length ps = [4, 4, 2]" using example by simp
  ultimately show ?thesis using pos run joined three
    by (intro conjI exI [of _ ps])
qed

text \<open>A loop that does not end: no pages for a non-positive \<^verbatim>\<open>imagesPerPage\<close> and an image.\<close>

lemma pagesLoop_diverges:
  assumes "pagesLoop xs ipp i acc = Some ps"
  shows "\<not> (ipp \<le> 0 \<and> i < int (length xs))"
proof (rule pagesLoop.raw_induct
    [where P = "\<lambda>xs ipp i acc ps. \<not> (ipp \<le> 0 \<and> i < int (length xs))", OF _ assms])
  fix f :: "'a list \<Rightarrow> int \<Rightarrow> int \<Rightarrow> 'a list list \<Rightarrow> 'a list list option"
    and xs ipp i acc ps
  assume later: "\<And>a b c d y. f a b c d = Some y \<Longrightarrow> \<not> (b \<le> 0 \<and> c < int (length a))"
    and step: "(if i < int (length xs)
                then f xs ipp (i + ipp) (acc @ [slice xs i (i + ipp)])
                else Some acc) = Some ps"
  show "\<not> (ipp \<le> 0 \<and> i < int (length xs))"
  proof
    assume stuck: "ipp \<le> 0 \<and> i < int (length xs)"
    then have "f xs ipp (i + ipp) (acc @ [slice xs i (i + ipp)]) = Some ps"
      using step by simp
    from later [OF this] stuck show False by simp
  qed
qed

lemma pages_diverges:
  "imagesPerPage \<le> 0 \<Longrightarrow> mergedImages \<noteq> [] \<Longrightarrow> pages mergedImages imagesPerPage = None"
  using pagesLoop_diverges [of mergedImages imagesPerPage 0 "[]"]
  by (cases "pages mergedImages imagesPerPage") (auto simp add: pages_def)


subsection \<open>The grid outside 1, 2, 4 and 6\<close>

text \<open>
  On the four values the application offers, the class of the grid on screen and the columns
  of both PDF exports name the same number of columns: 1, 2, 2 and 3.
\<close>

lemma offered_columns:
  "getGridClass 1 = ''grid-cols-1'' \<and> cols (downloadPageAsPDF_layout 1) = 1
     \<and> cols (downloadAllAsPDF_layout 1) = 1
   \<and> getGridClass 2 = ''grid-cols-2'' \<and> cols (downloadPageAsPDF_layout 2) = 2
     \<and> cols (downloadAllAsPDF_layout 2) = 2
   \<and> getGridClass 4 = ''grid-cols-2'' \<and> cols (downloadPageAsPDF_layout 4) = 2
     \<and> cols (downloadAllAsPDF_layout 4) = 2
   \<and> getGridClass 6 = ''grid-cols-3'' \<and> cols (downloadPageAsPDF_layout 6) = 3
     \<and> cols (downloadAllAsPDF_layout 6) = 3"
  by (simp add: getGridClass_def downloadPageAsPDF_layout_def downloadAllAsPDF_layout_def
      Let_def)




subsection \<open>The two exports\<close>

lemma loops_agree:
  "downloadAllAsPDF_loop loadImage L i srcs = downloadPageAsPDF_loop loadImage L i srcs"
  by (induction srcs arbitrary: i) (simp_all split: option.splits)

lemma layouts_agree:
  "downloadAllAsPDF_layout imagesPerPage = downloadPageAsPDF_layout imagesPerPage"
  by (simp add: downloadAllAsPDF_layout_def downloadPageAsPDF_layout_def)

lemma pages_nth:
  "downloadAllAsPDF_pages loadImage L pgs = Some added \<Longrightarrow>
     length added = length pgs \<and>
     (\<forall>k < length pgs. downloadAllAsPDF_loop loadImage L 0 (pgs ! k) = Some (added ! k))"
proof (induction pgs arbitrary: added)
  case Nil
  then show ?case by simp
next
  case (Cons p pgs)
  then show ?case
    by (auto split: option.splits simp add: nth_Cons split: nat.splits)
qed

lemma pages_all:
  "(\<forall>k < length pgs. downloadAllAsPDF_loop loadImage L 0 (pgs ! k) \<noteq> None) \<Longrightarrow>
     downloadAllAsPDF_pages loadImage L pgs \<noteq> None"
proof (induction pgs)
  case Nil
  then show ?case by simp
next
  case (Cons p pgs)
  have "downloadAllAsPDF_loop loadImage L 0 p \<noteq> None"
    using Cons.prems by (metis length_Cons nth_Cons_0 zero_less_Suc)
  moreover have "\<forall>k < length pgs. downloadAllAsPDF_loop loadImage L 0 (pgs ! k) \<noteq> None"
    using Cons.prems by (metis Suc_less_eq length_Cons nth_Cons_Suc)
  then have "downloadAllAsPDF_pages loadImage L pgs \<noteq> None"
    by (rule Cons.IH)
  ultimately show ?case by (auto split: option.splits)
qed

text \<open>
  C7. The two exports plan a page alike. Their constants (page size, padding, grid, cell
  size) are equal for every \<^verbatim>\<open>imagesPerPage\<close>, and their loops place every list of images
  alike from every index. So when the export of the whole document succeeds, the export of
  its page \<open>k\<close> alone succeeds with the same orientation and, image by image, the same
  \<open>(x, y, drawWidth, drawHeight)\<close> as page \<open>k\<close> of the document; and when the export of every
  page alone succeeds, so does the export of the whole document.
\<close>

theorem exports_agree:
  "downloadPageAsPDF_layout imagesPerPage = downloadAllAsPDF_layout imagesPerPage
   \<and> downloadPageAsPDF_loop loadImage L i pageImages
       = downloadAllAsPDF_loop loadImage L i pageImages
   \<and> (\<forall>k < length pgs. \<forall>doc.
         downloadAllAsPDF loadImage imagesPerPage pgs = Inr doc \<longrightarrow>
         downloadPageAsPDF loadImage imagesPerPage (pgs ! k) (int k)
           = Inr \<lparr>pdf_orientation = pdf_orientation doc, pdf_pages = [pdf_pages doc ! k],
                  saved_as = qris_merged_page (int k + 1)\<rparr>)
   \<and> ((\<forall>k < length pgs. \<exists>d.
          downloadPageAsPDF loadImage imagesPerPage (pgs ! k) (int k) = Inr d) \<longrightarrow>
        (\<exists>doc. downloadAllAsPDF loadImage imagesPerPage pgs = Inr doc))"
proof (intro conjI allI impI)
  show "downloadPageAsPDF_layout imagesPerPage = downloadAllAsPDF_layout imagesPerPage"
    by (simp add: layouts_agree)
  show "downloadPageAsPDF_loop loadImage L i pageImages
          = downloadAllAsPDF_loop loadImage L i pageImages"
    by (simp add: loops_agree)
next
  fix k doc
  assume k: "k < length pgs"
    and whole: "downloadAllAsPDF loadImage imagesPerPage pgs = Inr doc"
  let ?L = "downloadAllAsPDF_layout imagesPerPage"
  from whole obtain added where
    added: "downloadAllAsPDF_pages loadImage ?L pgs = Some added"
    and doc: "doc = \<lparr>pdf_orientation = getOrientation imagesPerPage,
                      pdf_pages = (if added = [] then [[]] else added),
                      saved_as = qris_merged_all\<rparr>"
    by (auto simp add: downloadAllAsPDF_def split: option.splits)
  from pages_nth [OF added] k
  have len: "length added = length pgs"
    and page: "downloadAllAsPDF_loop loadImage ?L 0 (pgs ! k) = Some (added ! k)"
    by simp_all
  have "added \<noteq> []" using len k by auto
  then have "pdf_pages doc ! k = added ! k" and "pdf_orientation doc = getOrientation imagesPerPage"
    by (simp_all add: doc)
  then show "downloadPageAsPDF loadImage imagesPerPage (pgs ! k) (int k)
           = Inr \<lparr>pdf_orientation = pdf_orientation doc, pdf_pages = [pdf_pages doc ! k],
                  saved_as = qris_merged_page (int k + 1)\<rparr>"
    using page by (simp add: downloadPageAsPDF_def loops_agree [symmetric] layouts_agree [symmetric])
next
  assume each: "\<forall>k < length pgs. \<exists>d.
          downloadPageAsPDF loadImage imagesPerPage (pgs ! k) (int k) = Inr d"
  have "\<forall>k < length pgs.
          downloadAllAsPDF_loop loadImage (downloadAllAsPDF_layout imagesPerPage) 0 (pgs ! k) \<noteq> None"
  proof (intro allI impI)
    fix k assume "k < length pgs"
    with each obtain d where
      "downloadPageAsPDF loadImage imagesPerPage (pgs ! k) (int k) = Inr d" by blast
    then show "downloadAllAsPDF_loop loadImage (downloadAllAsPDF_layout imagesPerPage) 0 (pgs ! k)
                 \<noteq> None"
      by (auto simp add: downloadPageAsPDF_def loops_agree layouts_agree split: option.splits)
  qed
  from pages_all [OF this]
  show "\<exists>doc. downloadAllAsPDF loadImage imagesPerPage pgs = Inr doc"
    by (auto simp add: downloadAllAsPDF_def split: option.splits)
qed

text \<open>
  Four per page, a first page of two images and a second of one, every image 200 by 100:
  the whole document, and its second page exported alone.
\<close>

theorem exports_agree_witness:
  "downloadAllAsPDF decoder 4 [[''a'', ''b''], [''e'']]
     = Inr \<lparr>pdf_orientation = landscape,
            pdf_pages =
              [[\<lparr>pdf_image = ''a'', at_x = 1491 / 400, at_y = 14391 / 800,
                 at_width = 28809 / 200, at_height = 28809 / 400\<rparr>,
                \<lparr>pdf_image = ''b'', at_x = 59691 / 400, at_y = 14391 / 800,
                 at_width = 28809 / 200, at_height = 28809 / 400\<rparr>],
               [\<lparr>pdf_image = ''e'', at_x = 1491 / 400, at_y = 14391 / 800,
                 at_width = 28809 / 200, at_height = 28809 / 400\<rparr>]],
            saved_as = qris_merged_all\<rparr>
   \<and> downloadPageAsPDF decoder 4 [''e''] 1
     = Inr \<lparr>pdf_orientation = landscape,
            pdf_pages =
              [[\<lparr>pdf_image = ''e'', at_x = 1491 / 400, at_y = 14391 / 800,
                 at_width = 28809 / 200, at_height = 28809 / 400\<rparr>]],
            saved_as = qris_merged_page 2\<rparr>"
proof -
  let ?pgs = "[[''a'', ''b''], [''e'']]"
  have whole: "downloadAllAsPDF decoder 4 ?pgs
     = Inr \<lparr>pdf_orientation = landscape,
            pdf_pages =
              [[\<lparr>pdf_image = ''a'', at_x = 1491 / 400, at_y = 14391 / 800,
                 at_width = 28809 / 200, at_height = 28809 / 400\<rparr>,
                \<lparr>pdf_image = ''b'', at_x = 59691 / 400, at_y = 14391 / 800,
                 at_width = 28809 / 200, at_height = 28809 / 400\<rparr>],
               [\<lparr>pdf_image = ''e'', at_x = 1491 / 400, at_y = 14391 / 800,
                 at_width = 28809 / 200, at_height = 28809 / 400\<rparr>]],
            saved_as = qris_merged_all\<rparr>"
    by (simp add: downloadAllAsPDF_def downloadAllAsPDF_layout_def getOrientation_def
        decoder_def Let_def)
  have second: "(1::nat) < length ?pgs" by simp
  from exports_agree [of 4 decoder _ _ _ ?pgs]
  have "\<forall>k < length ?pgs. \<forall>doc.
         downloadAllAsPDF decoder 4 ?pgs = Inr doc \<longrightarrow>
         downloadPageAsPDF decoder 4 (?pgs ! k) (int k)
           = Inr \<lparr>pdf_orientation = pdf_orientation doc, pdf_pages = [pdf_pages doc ! k],
                  saved_as = qris_merged_page (int k + 1)\<rparr>"
    by (rule conjunct1 [OF conjunct2 [OF conjunct2]])
  from this [rule_format, OF second whole] whole show ?thesis by simp
qed
section \<open>Properties of export and import\<close>

lemma import_of_export:
  "importParsed (exportData cfg now) st = st\<lparr>modal_areaConfig := Some cfg, saveSuccess := False\<rparr>"
  by (simp add: importParsed_def importedConfig_def exportData_def asAreaConfig_def)

text \<open>
  C9. With a rectangle and a frame set, the export produces a file, and importing that file
  sets the rectangle to the one exported, with the same four numbers (and shows no alert).
  The text of the file is written by \<^verbatim>\<open>JSON.stringify\<close> and read by \<^verbatim>\<open>JSON.parse\<close>, which
  belong to the platform: the hypothesis on them is that parsing the text of the exported
  object gives that object back, as these two do for finite numbers.
\<close>

theorem config_round_trip:
  assumes "parse (stringify (exportData cfg now)) = Some (exportData cfg now)"
    and "modal_areaConfig st = Some cfg"
    and "modal_frameImage st = Some f" and "f \<noteq> []"
  shows "\<exists>blob. handleExportConfig stringify now st = Some blob \<and>
           handleImportConfig parse blob st'
             = st'\<lparr>modal_areaConfig := Some cfg, saveSuccess := False\<rparr>"
  using assms
  by (simp add: handleExportConfig_def handleImportConfig_def import_of_export)

text \<open>The rectangle \<open>{x: 12.5, y: 0.1, width: 33.3, height: 40}\<close> exported and imported into
  a modal that holds no rectangle; the file is here the exported object itself.\<close>

theorem config_round_trip_witness:
  "\<exists>blob. handleExportConfig (\<lambda>v. v) ''2024-01-01T00:00:00.000Z''
            \<lparr>modal_frameImage = Some ''frame'',
             modal_areaConfig =
               Some \<lparr>area_x = 12.5, area_y = 0.1, area_width = 33.3, area_height = 40\<rparr>,
             saveSuccess = True, alerts = []\<rparr> = Some blob \<and>
          handleImportConfig Some blob
            \<lparr>modal_frameImage = Some ''other'', modal_areaConfig = None,
             saveSuccess = True, alerts = []\<rparr>
            = \<lparr>modal_frameImage = Some ''other'',
               modal_areaConfig =
                 Some \<lparr>area_x = 12.5, area_y = 0.1, area_width = 33.3, area_height = 40\<rparr>,
               saveSuccess = False, alerts = []\<rparr>"
  using config_round_trip [of Some "\<lambda>v. v"
      "\<lparr>area_x = 12.5, area_y = 0.1, area_width = 33.3, area_height = 40\<rparr>"
      "''2024-01-01T00:00:00.000Z''"
      "\<lparr>modal_frameImage = Some ''frame'',
        modal_areaConfig =
          Some \<lparr>area_x = 12.5, area_y = 0.1, area_width = 33.3, area_height = 40\<rparr>,
        saveSuccess = True, alerts = []\<rparr>"
      "''frame''"
      "\<lparr>modal_frameImage = Some ''other'', modal_areaConfig = None,
        saveSuccess = True, alerts = []\<rparr>"]
  by simp

text \<open>
  C10. For a parsed JSON object \<open>data\<close>, the importer looks at \<^verbatim>\<open>data.areaConfig || data\<close>
  and sets the rectangle to it exactly when its \<open>x\<close>, \<open>y\<close>, \<open>width\<close> and \<open>height\<close> are all
  numbers; otherwise it shows the alert for an invalid format and the rectangle stays.
  Nothing else is tested: an object with \<open>x = -50\<close> and one with \<open>width = 500\<close>, bare or
  under the key \<open>areaConfig\<close>, are set as the rectangle although they are outside the bounds.
\<close>

theorem import_checks_types_only:
  "importParsed (JObj kvs) st =
     (if typeof_number (field (importedConfig (JObj kvs)) ''x'') \<and>
         typeof_number (field (importedConfig (JObj kvs)) ''y'') \<and>
         typeof_number (field (importedConfig (JObj kvs)) ''width'') \<and>
         typeof_number (field (importedConfig (JObj kvs)) ''height'')
      then st\<lparr>modal_areaConfig := Some (asAreaConfig (importedConfig (JObj kvs))),
              saveSuccess := False\<rparr>
      else st\<lparr>alerts := alerts st @ [invalid_format]\<rparr>)
   \<and> importParsed
        (JObj [(''x'', JNum (- 50)), (''y'', JNum 10), (''width'', JNum 20), (''height'', JNum 20)]) st
       = st\<lparr>modal_areaConfig :=
               Some \<lparr>area_x = - 50, area_y = 10, area_width = 20, area_height = 20\<rparr>,
             saveSuccess := False\<rparr>
   \<and> \<not> in_bounds \<lparr>area_x = - 50, area_y = 10, area_width = 20, area_height = 20\<rparr>
   \<and> importParsed
        (JObj [(''areaConfig'',
                JObj [(''x'', JNum 10), (''y'', JNum 10), (''width'', JNum 500),
                      (''height'', JNum 20)])]) st
       = st\<lparr>modal_areaConfig :=
               Some \<lparr>area_x = 10, area_y = 10, area_width = 500, area_height = 20\<rparr>,
             saveSuccess := False\<rparr>
   \<and> \<not> in_bounds \<lparr>area_x = 10, area_y = 10, area_width = 500, area_height = 20\<rparr>"
proof (intro conjI)
  show "importParsed (JObj kvs) st =
     (if typeof_number (field (importedConfig (JObj kvs)) ''x'') \<and>
         typeof_number (field (importedConfig (JObj kvs)) ''y'') \<and>
         typeof_number (field (importedConfig (JObj kvs)) ''width'') \<and>
         typeof_number (field (importedConfig (JObj kvs)) ''height'')
      then st\<lparr>modal_areaConfig := Some (asAreaConfig (importedConfig (JObj kvs))),
              saveSuccess := False\<rparr>
      else st\<lparr>alerts := alerts st @ [invalid_format]\<rparr>)"
    by (simp add: importParsed_def Let_def)
qed (simp_all add: importParsed_def importedConfig_def asAreaConfig_def in_bounds_def)

end
